theory Spec2Isabelle
  imports Main "HOL-Library.AList"
begin

section \<open>JavaScript values the handlers consume\<close>

text \<open>
  The tool handlers read \<open>request.params.arguments\<close>, a parsed JSON object, and use
  its \<open>name\<close> property in exactly two ways: as the operand of \<open>!name\<close> and inside a
  template literal. A value is therefore modelled with what these two operations need.
  \<open>JOpaque t r\<close> stands for a number, an array or an object whose boolean conversion
  is \<open>t\<close> and whose string conversion is \<open>r\<close>.
\<close>

datatype jsval = JUndefined | JNull | JBool bool | JStr string | JOpaque bool string

fun js_truthy :: "jsval \<Rightarrow> bool" where
  "js_truthy JUndefined = False"
| "js_truthy JNull = False"
| "js_truthy (JBool b) = b"
| "js_truthy (JStr s) = (s \<noteq> [])"
| "js_truthy (JOpaque t r) = t"

fun js_to_string :: "jsval \<Rightarrow> string" where
  "js_to_string JUndefined = ''undefined''"
| "js_to_string JNull = ''null''"
| "js_to_string (JBool b) = (if b then ''true'' else ''false'')"
| "js_to_string (JStr s) = s"
| "js_to_string (JOpaque t r) = r"

text \<open>Property read \<open>obj.key\<close> on a parsed JSON object: a missing key reads as undefined.\<close>

definition js_prop :: "(string \<rightharpoonup> jsval) \<Rightarrow> string \<Rightarrow> jsval" where
  "js_prop obj key = (case obj key of None \<Rightarrow> JUndefined | Some v \<Rightarrow> v)"

datatype js_error =
    Error string
  | TypeError string
  | TransportFailure
  | HeadersAlreadySent

section \<open>The session table\<close>

text \<open>
  \<open>transports: {[sessionId: string]: StreamableHTTPServerTransport} = {}\<close> is a plain
  object used as a dictionary. Its own properties are kept as an association list in
  insertion order (the order \<open>Object.values\<close> enumerates non-numeric keys in). A
  transport is the SDK's object; the only part of it this code reads is \<open>sessionId\<close>.
\<close>

record transport =
  sessionId :: "string option"

text \<open>
  An object literal inherits from \<open>Object.prototype\<close>, and the read
  \<open>this.transports[key]\<close> walks the prototype chain: for the names below it yields an
  inherited member (a function, or the prototype object for \<open>__proto__\<close>), which is
  truthy and has no \<open>handleRequest\<close> method.
\<close>

definition Object_prototype_names :: "string list" where
  "Object_prototype_names =
     [''constructor'', ''__defineGetter__'', ''__defineSetter__'', ''hasOwnProperty'',
      ''__lookupGetter__'', ''__lookupSetter__'', ''isPrototypeOf'',
      ''propertyIsEnumerable'', ''toString'', ''valueOf'', ''__proto__'',
      ''toLocaleString'']"

datatype table_entry = Undefined | Own transport | Inherited

definition transports_get :: "(string \<times> transport) list \<Rightarrow> string \<Rightarrow> table_entry" where
  "transports_get tbl key =
     (case map_of tbl key of
        Some t \<Rightarrow> Own t
      | None \<Rightarrow> if key \<in> set Object_prototype_names then Inherited else Undefined)"

section \<open>Messages\<close>

record jsonrpc_error =
  err_jsonrpc :: string
  err_code :: int
  err_message :: string
  err_id :: string

text \<open>A response this code writes itself: \<open>res.status(n).json(err)\<close> or
  \<open>res.status(n).send(text)\<close>.\<close>

datatype http_body = JsonBody jsonrpc_error | TextBody string

record http_response =
  status :: nat
  body :: http_body

text \<open>What the SDK transport writes to \<open>res\<close> when a request is handed to it: opaque
  to this code (a status and a payload).\<close>

datatype transport_output = TransportOutput nat string

record logging_params =
  level :: string
  data :: string

record notification =
  notif_method :: string
  notif_params :: "logging_params option"

record jsonrpc_notification =
  rpc_method :: string
  rpc_params :: "logging_params option"
  rpc_jsonrpc :: string

record rpc_body =
  body_method :: string
  body_id :: jsval

record request =
  mcp_session_id :: "string option"
  req_body :: rpc_body

definition SESSION_ID_HEADER_NAME :: string where
  "SESSION_ID_HEADER_NAME = ''mcp-session-id''"

definition JSON_RPC :: string where
  "JSON_RPC = ''2.0''"

section \<open>The server object\<close>

datatype request_schema = ListToolsRequestSchema | CallToolRequestSchema

text \<open>
  The fields of \<open>MCPServer\<close>. \<open>server\<close> is the SDK's \<open>Server\<close>; what this code does
  to it is register request handlers, so it is modelled by the set of schemas that
  have a handler. \<open>toolInterval\<close> tells whether the timer is set.
\<close>

record mcp_server =
  server :: "request_schema set"
  transports :: "(string \<times> transport) list"
  toolInterval :: bool
  singleGreetToolName :: string
  multiGreetToolName :: string

section \<open>The environment of one handler run\<close>

text \<open>
  The transport is the SDK's \<open>StreamableHTTPServerTransport\<close>, a library the
  repository imports. What \<open>transport.handleRequest\<close> does with a request is outside
  this code, so it is a parameter of every handler; the cases are those the code reacts to. \<open>Replies r\<close>: the transport writes \<open>r\<close> and fires no hook.
  \<open>Initializes r\<close>: it draws the session id from \<open>sessionIdGenerator\<close>, fires
  \<open>onsessioninitialized\<close> and writes \<open>r\<close>. \<open>Closes r\<close>: it closes itself, firing
  \<open>onclose\<close>, and writes \<open>r\<close>. \<open>Rejects w\<close>: the promise rejects, after \<open>w\<close> was
  written when \<open>w\<close> is not \<open>None\<close>.
\<close>

datatype transport_effect =
    Replies transport_output
  | Initializes transport_output
  | Closes transport_output
  | Rejects "transport_output option"

text \<open>
  What the runtime and the SDK supply to one run of a request handler:
  the SDK predicate \<open>isInitializeRequest\<close>, the value \<open>randomUUID()\<close> returns inside
  \<open>sessionIdGenerator\<close> and inside \<open>createErrorResponse\<close>, whether
  \<open>server.connect(transport)\<close> fulfils, and what \<open>transport.handleRequest\<close> does.
\<close>

record env =
  isInitializeRequest :: "rpc_body \<Rightarrow> bool"
  sessionUUID :: string
  errorUUID :: string
  connect_fulfils :: bool
  handleRequest_effect :: transport_effect

datatype settled = Fulfilled transport_output | Rejected js_error "transport_output option"

text \<open>
  What a route handler leaves behind: the response it wrote itself, the response the
  transport wrote, or an exception that escapes the \<open>async\<close> method (with what the
  transport had written before it, if anything).
\<close>

datatype handler_result =
    Sent http_response
  | Relayed transport_output
  | Uncaught js_error "transport_output option"

section \<open>createErrorResponse and sendNotification\<close>

definition createErrorResponse :: "string \<Rightarrow> string \<Rightarrow> jsonrpc_error" where
  "createErrorResponse uuid message =
     \<lparr>err_jsonrpc = ''2.0'', err_code = - 32000, err_message = message, err_id = uuid\<rparr>"

record delivery =
  target :: transport
  message :: jsonrpc_notification
  fulfilled :: bool

text \<open>
  \<open>sendNotification\<close> is \<open>async\<close>: a call never throws, it returns a promise that is
  fulfilled or rejected as \<open>transport.send\<close> is (\<open>send\<close> below).
\<close>

definition sendNotification ::
    "(transport \<Rightarrow> bool) \<Rightarrow> transport \<Rightarrow> notification \<Rightarrow> delivery" where
  "sendNotification send t n =
     \<lparr>target = t,
      message = \<lparr>rpc_method = notif_method n, rpc_params = notif_params n, rpc_jsonrpc = JSON_RPC\<rparr>,
      fulfilled = send t\<rparr>"

section \<open>Tools\<close>

record schema_property =
  prop_type :: string
  prop_description :: string

record input_schema =
  schema_type :: string
  properties :: "(string \<times> schema_property) list"
  required :: "string list"

record tool =
  name :: string
  description :: string
  inputSchema :: input_schema

definition name_schema :: input_schema where
  "name_schema =
     \<lparr>schema_type = ''object'',
      properties = [(''name'', \<lparr>prop_type = ''string'', prop_description = ''name to greet''\<rparr>)],
      required = [''name'']\<rparr>"

definition singleGreetTool :: "mcp_server \<Rightarrow> tool" where
  "singleGreetTool s =
     \<lparr>name = singleGreetToolName s, description = ''Greet the user once.'',
      inputSchema = name_schema\<rparr>"

definition multiGreetTool :: "mcp_server \<Rightarrow> tool" where
  "multiGreetTool s =
     \<lparr>name = multiGreetToolName s,
      description = ''Greet the user multiple times with delay in between.'',
      inputSchema = name_schema\<rparr>"

text \<open>
  The handler that \<open>setToolSchema\<close> registers for \<open>ListToolsRequestSchema\<close>. It runs
  once per tool-list request; \<open>uuid\<close> is what \<open>randomUUID()\<close> returns in that run.
\<close>

definition ListTools_handler :: "string \<Rightarrow> mcp_server \<Rightarrow> mcp_server \<times> tool list" where
  "ListTools_handler uuid s =
     (let s' = s\<lparr>singleGreetToolName := ''single-greeting-'' @ uuid\<rparr>
      in (s', [singleGreetTool s', multiGreetTool s']))"

definition setToolSchema :: "mcp_server \<Rightarrow> mcp_server" where
  "setToolSchema s = s\<lparr>server := insert ListToolsRequestSchema (server s)\<rparr>"

record call_tool_request =
  call_name :: string
  call_arguments :: "(string \<rightharpoonup> jsval) option"

record text_content =
  content_type :: string
  content_text :: string

datatype event = Notify notification | Sleep nat

text \<open>
  The handler registered for \<open>CallToolRequestSchema\<close>. It returns the effects it
  performed, in order, and either the result or the error it throws.
  \<open>extra_sendNotification k\<close> tells whether the \<open>k\<close>-th awaited \<open>extra.sendNotification\<close>
  of the run fulfils; a rejection is not caught, so it ends the run (\<open>TransportFailure\<close>).
\<close>

definition CallTool_handler ::
    "(nat \<Rightarrow> bool) \<Rightarrow> mcp_server \<Rightarrow> call_tool_request
       \<Rightarrow> event list \<times> (js_error + text_content list)" where
  "CallTool_handler extra_sendNotification s request =
     (case call_arguments request of
        None \<Rightarrow> ([], Inl (Error ''arguments undefined''))
      | Some args \<Rightarrow>
          let toolName = call_name request in
          if toolName = [] then ([], Inl (Error ''tool name undefined''))
          else if toolName = singleGreetToolName s then
            (let name = js_prop args ''name'' in
             if js_truthy name
             then ([], Inr [\<lparr>content_type = ''text'',
                     content_text = ''Hey '' @ js_to_string name @ ''! Welcome to itsuki's world!''\<rparr>])
             else ([], Inl (Error ''Name to greet undefined.'')))
          else if toolName = multiGreetToolName s then
            (let name = js_prop args ''name'';
                 notification = \<lparr>notif_method = ''notifications/message'',
                     notif_params = Some \<lparr>level = ''info'', data = ''First greet to '' @ js_to_string name\<rparr>\<rparr>
             in if extra_sendNotification 0 then
                  (let notification2 = notification\<lparr>notif_params :=
                         Some \<lparr>level = ''info'', data = ''Second greet to '' @ js_to_string name\<rparr>\<rparr>
                   in if extra_sendNotification 1 then
                        ([Notify notification, Sleep 1000, Notify notification2, Sleep 1000],
                         Inr [\<lparr>content_type = ''text'', content_text = ''Hope you enjoy your day!''\<rparr>])
                      else ([Notify notification, Sleep 1000], Inl TransportFailure))
                else ([], Inl TransportFailure))
          else ([], Inl (Error ''Tool not found'')))"

text \<open>What the caller's session receives from one run: the notifications, then one
  response (the result, or the JSON-RPC error of the thrown exception).\<close>

datatype observed = Interim notification | Terminal "text_content list" | Failure js_error

fun notifications_of :: "event list \<Rightarrow> observed list" where
  "notifications_of [] = []"
| "notifications_of (Notify n # es) = Interim n # notifications_of es"
| "notifications_of (Sleep ms # es) = notifications_of es"

definition session_trace :: "event list \<times> (js_error + text_content list) \<Rightarrow> observed list" where
  "session_trace run =
     notifications_of (fst run) @
       (case snd run of Inr r \<Rightarrow> [Terminal r] | Inl e \<Rightarrow> [Failure e])"

section \<open>The timer\<close>

datatype 'a completion = Normal 'a | Abrupt js_error

text \<open>\<open>Array.prototype.forEach\<close>: the callback runs on each element in order; an
  exception thrown by a callback ends the loop.\<close>

fun forEach :: "'a list \<Rightarrow> ('a \<Rightarrow> 's \<Rightarrow> 's completion) \<Rightarrow> 's \<Rightarrow> 's completion" where
  "forEach [] f acc = Normal acc"
| "forEach (x # xs) f acc =
     (case f x acc of Normal acc' \<Rightarrow> forEach xs f acc' | Abrupt e \<Rightarrow> Abrupt e)"

definition toolListChanged :: notification where
  "toolListChanged = \<lparr>notif_method = ''notifications/tools/list_changed'', notif_params = None\<rparr>"

text \<open>
  The callback of \<open>setInterval(..., 5000)\<close>. The promises \<open>sendNotification\<close> returns
  are neither awaited nor caught; they are collected here in call order.
\<close>

definition toolInterval_callback ::
    "(transport \<Rightarrow> bool) \<Rightarrow> mcp_server \<Rightarrow> mcp_server \<times> delivery list completion" where
  "toolInterval_callback send s =
     (let s' = setToolSchema s
      in (s', forEach (map snd (transports s'))
                (\<lambda>t promises. Normal (promises @ [sendNotification send t toolListChanged]))
                []))"

definition configureTools :: "mcp_server \<Rightarrow> mcp_server" where
  "configureTools s =
     (let s1 = setToolSchema s;
          s2 = s1\<lparr>toolInterval := True\<rparr>
      in s2\<lparr>server := insert CallToolRequestSchema (server s2)\<rparr>)"

definition new_MCPServer :: mcp_server where
  "new_MCPServer =
     configureTools
       \<lparr>server = {}, transports = [], toolInterval = False,
        singleGreetToolName = ''single-greet'', multiGreetToolName = ''multi-great''\<rparr>"

section \<open>The transport hooks\<close>

text \<open>\<open>onsessioninitialized\<close>: \<open>this.transports[sessionId] = transport\<close>.\<close>

definition onsessioninitialized :: "transport \<Rightarrow> string \<Rightarrow> mcp_server \<Rightarrow> mcp_server" where
  "onsessioninitialized t sid s = s\<lparr>transports := AList.update sid t (transports s)\<rparr>"

text \<open>\<open>transport.onclose\<close>: the entry under the transport's own session id is deleted
  when \<open>sid && this.transports[sid]\<close> is truthy (\<open>delete\<close> removes own properties only).\<close>

definition onclose :: "transport \<Rightarrow> mcp_server \<Rightarrow> mcp_server" where
  "onclose t s =
     (case sessionId t of
        None \<Rightarrow> s
      | Some sid \<Rightarrow>
          if sid = [] then s
          else (case transports_get (transports s) sid of
                  Undefined \<Rightarrow> s
                | Own t' \<Rightarrow> s\<lparr>transports := AList.delete sid (transports s)\<rparr>
                | Inherited \<Rightarrow> s\<lparr>transports := AList.delete sid (transports s)\<rparr>))"

text \<open>
  The call \<open>transport.handleRequest(req, res, ...)\<close> on the value the table read gave.
  On a transport the environment says what happens, and the hooks this code installed
  run on the server state. An inherited member of \<open>Object.prototype\<close> has no such
  method, so the call throws a \<open>TypeError\<close>.
\<close>

definition call_handleRequest :: "env \<Rightarrow> table_entry \<Rightarrow> mcp_server \<Rightarrow> mcp_server \<times> settled" where
  "call_handleRequest e entry s =
     (case entry of
        Own t \<Rightarrow>
          (case handleRequest_effect e of
             Replies r \<Rightarrow> (s, Fulfilled r)
           | Initializes r \<Rightarrow>
               (case sessionId t of
                  None \<Rightarrow> (onsessioninitialized (t\<lparr>sessionId := Some (sessionUUID e)\<rparr>) (sessionUUID e) s,
                            Fulfilled r)
                | Some sid \<Rightarrow> (s, Fulfilled r))
           | Closes r \<Rightarrow> (onclose t s, Fulfilled r)
           | Rejects w \<Rightarrow> (s, Rejected TransportFailure w))
      | Inherited \<Rightarrow> (s, Rejected (TypeError ''transport.handleRequest is not a function'') None)
      | Undefined \<Rightarrow> (s, Rejected (TypeError ''Cannot read properties of undefined'') None))"

section \<open>The three route handlers\<close>

text \<open>The value of \<open>sessionId && this.transports[sessionId]\<close>: a missing header and
  the empty string are falsy.\<close>

definition session_entry :: "mcp_server \<Rightarrow> string option \<Rightarrow> table_entry" where
  "session_entry s sid_header =
     (case sid_header of
        None \<Rightarrow> Undefined
      | Some sid \<Rightarrow> if sid = [] then Undefined else transports_get (transports s) sid)"

definition header_falsy :: "string option \<Rightarrow> bool" where
  "header_falsy sid_header = (case sid_header of None \<Rightarrow> True | Some sid \<Rightarrow> sid = [])"

definition bad_request :: "env \<Rightarrow> http_response" where
  "bad_request e =
     \<lparr>status = 400,
      body = JsonBody (createErrorResponse (errorUUID e) ''Bad Request: invalid session ID or method.'')\<rparr>"

definition handleGetRequest :: "env \<Rightarrow> mcp_server \<Rightarrow> request \<Rightarrow> mcp_server \<times> handler_result" where
  "handleGetRequest e s req =
     (case session_entry s (mcp_session_id req) of
        Undefined \<Rightarrow> (s, Sent (bad_request e))
      | entry \<Rightarrow>
          (case call_handleRequest e entry s of
             (s', Fulfilled r) \<Rightarrow> (s', Relayed r)
           | (s', Rejected err w) \<Rightarrow> (s', Uncaught err w)))"

text \<open>The \<open>catch\<close> block of \<open>handlePostRequest\<close>: \<open>res.status(500).json(...)\<close>, which
  itself throws when the response head has already been written.\<close>

definition post_catch :: "env \<Rightarrow> mcp_server \<Rightarrow> transport_output option \<Rightarrow> mcp_server \<times> handler_result" where
  "post_catch e s written =
     (case written of
        None \<Rightarrow> (s, Sent \<lparr>status = 500,
                   body = JsonBody (createErrorResponse (errorUUID e) ''Internal server error:'')\<rparr>)
      | Some r \<Rightarrow> (s, Uncaught HeadersAlreadySent (Some r)))"

definition post_settle :: "env \<Rightarrow> mcp_server \<times> settled \<Rightarrow> mcp_server \<times> handler_result" where
  "post_settle e run =
     (case run of
        (s', Fulfilled r) \<Rightarrow> (s', Relayed r)
      | (s', Rejected err w) \<Rightarrow> post_catch e s' w)"

definition handlePostRequest :: "env \<Rightarrow> mcp_server \<Rightarrow> request \<Rightarrow> mcp_server \<times> handler_result" where
  "handlePostRequest e s req =
     (case session_entry s (mcp_session_id req) of
        Undefined \<Rightarrow>
          if header_falsy (mcp_session_id req) \<and> isInitializeRequest e (req_body req)
          then (if connect_fulfils e
                then post_settle e (call_handleRequest e (Own \<lparr>sessionId = None\<rparr>) s)
                else post_catch e s None)
          else (s, Sent (bad_request e))
      | entry \<Rightarrow> post_settle e (call_handleRequest e entry s))"

definition handleDeleteRequest :: "env \<Rightarrow> mcp_server \<Rightarrow> request \<Rightarrow> mcp_server \<times> handler_result" where
  "handleDeleteRequest e s req =
     (case session_entry s (mcp_session_id req) of
        Undefined \<Rightarrow> (s, Sent \<lparr>status = 400, body = TextBody ''Invalid or missing session ID''\<rparr>)
      | entry \<Rightarrow>
          (case call_handleRequest e entry s of
             (s', Fulfilled r) \<Rightarrow> (s', Relayed r)
           | (s', Rejected err w) \<Rightarrow>
               (case w of
                  None \<Rightarrow> (s', Sent \<lparr>status = 500,
                              body = TextBody ''Error processing session termination''\<rparr>)
                | Some r \<Rightarrow> (s', Relayed r))))"

text \<open>Whether a response body is a JSON-RPC error object \<open>{jsonrpc, error: {code, message}, id}\<close>.\<close>

fun is_jsonrpc_error_body :: "http_body \<Rightarrow> bool" where
  "is_jsonrpc_error_body (JsonBody err) = True"
| "is_jsonrpc_error_body (TextBody txt) = False"

text \<open>What holds of the two tool names in every state the program reaches.\<close>

definition names_ok :: "mcp_server \<Rightarrow> bool" where
  "names_ok s =
     (multiGreetToolName s = ''multi-great'' \<and> take 12 (singleGreetToolName s) = ''single-greet'')"

section \<open>Concrete runs\<close>

text \<open>A client that initializes a session and then terminates it, with a transport
  that accepts the initialization and closes on termination.\<close>

definition example_uuid :: string where
  "example_uuid = ''1b9d6bcd-bbfd-4b2d-9b5d-ab8dfbbd4bed''"

definition initialize_request :: request where
  "initialize_request =
     \<lparr>mcp_session_id = None, req_body = \<lparr>body_method = ''initialize'', body_id = JOpaque False ''0''\<rparr>\<rparr>"

definition initializing_env :: env where
  "initializing_env =
     \<lparr>isInitializeRequest = (\<lambda>b. body_method b = ''initialize''),
      sessionUUID = example_uuid,
      errorUUID = ''9c5b94b1-35ad-49bb-b118-8e8fc24abf80'',
      connect_fulfils = True,
      handleRequest_effect = Initializes (TransportOutput 200 ''initialize result'')\<rparr>"

definition closing_env :: env where
  "closing_env = initializing_env\<lparr>handleRequest_effect := Closes (TransportOutput 200 [])\<rparr>"

definition terminate_request :: request where
  "terminate_request =
     \<lparr>mcp_session_id = Some example_uuid, req_body = \<lparr>body_method = [], body_id = JUndefined\<rparr>\<rparr>"

definition one_session_server :: mcp_server where
  "one_session_server = fst (handlePostRequest initializing_env new_MCPServer initialize_request)"

section \<open>The process\<close>

text \<open>
  The events of \<open>process\<close> a listener can be registered for. The bootstrap file
  registers one listener, \<open>process.on('SIGINT', ...)\<close>, and none for rejections or
  exceptions that nothing caught.
\<close>

datatype process_event = SIGINT | UnhandledRejection | UncaughtException

definition process_listeners :: "process_event list" where
  "process_listeners = [SIGINT]"

text \<open>
  What Node does with a rejected promise that has no handler once the callback that
  created it has returned. In mode \<open>throw\<close> (the default since Node 15) it emits
  \<open>unhandledRejection\<close>; without a listener the rejection is raised as an uncaught
  exception, and without a listener for that the process exits with code 1. In mode
  \<open>warn\<close> (the default before) it prints a warning and the process goes on.
\<close>

datatype rejection_mode = ThrowMode | WarnMode

datatype process_state = Running | Exited nat

text \<open>
  The timer callback discards every promise \<open>sendNotification\<close> returns: it neither
  awaits it nor attaches \<open>catch\<close>, and \<open>sendNotification\<close> has no \<open>try\<close> around
  \<open>transport.send\<close>. So each rejected promise is left without a handler.
\<close>

definition unhandled_rejections :: "delivery list \<Rightarrow> delivery list" where
  "unhandled_rejections promises = filter (\<lambda>p. \<not> fulfilled p) promises"

definition process_after_timer :: "rejection_mode \<Rightarrow> delivery list completion \<Rightarrow> process_state" where
  "process_after_timer mode c =
     (if (case c of Normal promises \<Rightarrow> unhandled_rejections promises = [] | Abrupt e \<Rightarrow> False)
      then Running
      else if UnhandledRejection \<in> set process_listeners then Running
      else (case mode of
              WarnMode \<Rightarrow> Running
            | ThrowMode \<Rightarrow>
                if UncaughtException \<in> set process_listeners then Running else Exited 1))"

text \<open>A second client initializes a session; then the timer fires while the first
  session's transport rejects \<open>send\<close> and the second one's accepts it.\<close>

definition second_uuid :: string where
  "second_uuid = ''7c9e6679-7425-40de-944b-e07fc1f90ae7''"

definition two_session_server :: mcp_server where
  "two_session_server =
     fst (handlePostRequest (initializing_env\<lparr>sessionUUID := second_uuid\<rparr>)
            one_session_server initialize_request)"

definition first_send_rejects :: "transport \<Rightarrow> bool" where
  "first_send_rejects t = (sessionId t \<noteq> Some example_uuid)"

section \<open>Facts about the model\<close>

lemma names_ok_new_MCPServer: "names_ok new_MCPServer"
  by (simp add: names_ok_def new_MCPServer_def configureTools_def setToolSchema_def)

lemma names_ok_distinct:
  assumes "names_ok s"
  shows "multiGreetToolName s \<noteq> singleGreetToolName s" and "multiGreetToolName s \<noteq> []"
    and "singleGreetToolName s \<noteq> []"
proof -
  have m: "multiGreetToolName s = ''multi-great''"
    and p: "take 12 (singleGreetToolName s) = ''single-greet''"
    using assms by (simp_all add: names_ok_def)
  show "multiGreetToolName s \<noteq> singleGreetToolName s"
  proof
    assume "multiGreetToolName s = singleGreetToolName s"
    with m have "singleGreetToolName s = ''multi-great''" by simp
    with p show False by simp
  qed
  show "multiGreetToolName s \<noteq> []" using m by simp
  show "singleGreetToolName s \<noteq> []" using p by auto
qed

lemma names_ok_ListTools_handler: "names_ok s \<Longrightarrow> names_ok (fst (ListTools_handler u s))"
  by (simp add: names_ok_def ListTools_handler_def Let_def)

lemma names_ok_toolInterval_callback:
  "names_ok s \<Longrightarrow> names_ok (fst (toolInterval_callback send s))"
  by (simp add: names_ok_def toolInterval_callback_def Let_def setToolSchema_def)

text \<open>The state after the example client has initialized its session.\<close>

lemma one_session_server_eq:
  "one_session_server =
     new_MCPServer\<lparr>transports := [(example_uuid, \<lparr>sessionId = Some example_uuid\<rparr>)]\<rparr>"
  by (simp add: one_session_server_def handlePostRequest_def session_entry_def
      initialize_request_def initializing_env_def header_falsy_def post_settle_def
      call_handleRequest_def onsessioninitialized_def new_MCPServer_def configureTools_def
      setToolSchema_def)

lemma forEach_collect:
  "forEach xs (\<lambda>x acc. Normal (acc @ [g x])) acc0 = Normal (acc0 @ map g xs)"
  by (induction xs arbitrary: acc0) simp_all

lemma map_of_delete_same: "map_of (AList.delete k al) k = None"
  by (simp add: AList.delete_eq map_of_eq_None_iff image_iff)

text \<open>The route handlers touch no field but the session table.\<close>

lemma call_handleRequest_frame:
  "\<exists>tbl. fst (call_handleRequest e entry s) = s\<lparr>transports := tbl\<rparr>"
proof -
  have same: "s = s\<lparr>transports := transports s\<rparr>" by simp
  show ?thesis
    by (auto simp: call_handleRequest_def onclose_def onsessioninitialized_def
        intro: exI [of _ "transports s"]
        split: table_entry.splits transport_effect.splits option.splits)
qed

lemma handlers_frame:
  assumes "h = handlePostRequest \<or> h = handleGetRequest \<or> h = handleDeleteRequest"
  shows "\<exists>tbl. fst (h e s req) = s\<lparr>transports := tbl\<rparr>"
proof -
  have same: "\<exists>tbl. s = s\<lparr>transports := tbl\<rparr>"
    by (rule exI [of _ "transports s"]) simp
  have call: "\<exists>tbl. fst (call_handleRequest e entry s) = s\<lparr>transports := tbl\<rparr>" for entry
    by (rule call_handleRequest_frame)
  have settle: "fst (post_settle e run) = fst run" for run
    by (cases run) (auto simp: post_settle_def post_catch_def split: settled.splits option.splits)
  have post: "\<exists>tbl. fst (handlePostRequest e s req) = s\<lparr>transports := tbl\<rparr>"
    using same call
    by (simp add: handlePostRequest_def settle post_catch_def split: table_entry.splits)
  have get: "\<exists>tbl. fst (handleGetRequest e s req) = s\<lparr>transports := tbl\<rparr>"
  proof (cases "session_entry s (mcp_session_id req)")
    case Undefined
    then show ?thesis using same by (simp add: handleGetRequest_def)
  next
    case (Own t)
    obtain s' r where c: "call_handleRequest e (Own t) s = (s', r)"
      by (cases "call_handleRequest e (Own t) s")
    with call [of "Own t"] Own show ?thesis
      by (cases r) (simp_all add: handleGetRequest_def)
  next
    case Inherited
    obtain s' r where c: "call_handleRequest e Inherited s = (s', r)"
      by (cases "call_handleRequest e Inherited s")
    with call [of Inherited] Inherited show ?thesis
      by (cases r) (simp_all add: handleGetRequest_def)
  qed
  have del: "\<exists>tbl. fst (handleDeleteRequest e s req) = s\<lparr>transports := tbl\<rparr>"
  proof (cases "session_entry s (mcp_session_id req)")
    case Undefined
    then show ?thesis using same by (simp add: handleDeleteRequest_def)
  next
    case (Own t)
    obtain s' r where c: "call_handleRequest e (Own t) s = (s', r)"
      by (cases "call_handleRequest e (Own t) s")
    with call [of "Own t"] Own show ?thesis
      by (cases r) (simp_all add: handleDeleteRequest_def split: option.splits)
  next
    case Inherited
    obtain s' r where c: "call_handleRequest e Inherited s = (s', r)"
      by (cases "call_handleRequest e Inherited s")
    with call [of Inherited] Inherited show ?thesis
      by (cases r) (simp_all add: handleDeleteRequest_def split: option.splits)
  qed
  from assms post get del show ?thesis by blast
qed

lemma names_ok_handlers:
  assumes "h = handlePostRequest \<or> h = handleGetRequest \<or> h = handleDeleteRequest"
    and "names_ok s"
  shows "names_ok (fst (h e s req))"
proof -
  obtain tbl where "fst (h e s req) = s\<lparr>transports := tbl\<rparr>"
    using handlers_frame [OF assms(1)] by blast
  with assms(2) show ?thesis by (simp add: names_ok_def)
qed

text \<open>
  A structured error body that a route handler sends comes from
  \<open>createErrorResponse\<close>, and its id is the only place the drawn UUID goes to.
\<close>

lemma handler_error_cases:
  assumes "h = handlePostRequest \<or> h = handleGetRequest \<or> h = handleDeleteRequest"
    and "snd (h e s req) = Sent \<lparr>status = st, body = JsonBody err\<rparr>"
  shows "\<exists>m. err = createErrorResponse (errorUUID e) m \<and>
          (\<forall>u. snd (h (e\<lparr>errorUUID := u\<rparr>) s req) =
                 Sent \<lparr>status = st, body = JsonBody (createErrorResponse u m)\<rparr>)"
  using assms
  by (auto simp: handlePostRequest_def handleGetRequest_def handleDeleteRequest_def
      post_settle_def post_catch_def bad_request_def call_handleRequest_def
      split: table_entry.splits transport_effect.splits option.splits if_splits)

section \<open>Session identifiers that do not name a session\<close>

text \<open>
  A request whose session identifier reads as \<open>undefined\<close> from the table, and that is
  not an initialization without identifier, is answered 400 with the JSON-RPC error
  body, on the POST path and on the GET path, and the state is left as it was.
\<close>

lemma unknown_session_rejected:
  assumes "session_entry s (mcp_session_id req) = Undefined"
    and "\<not> (header_falsy (mcp_session_id req) \<and> isInitializeRequest e (req_body req))"
  shows "handlePostRequest e s req = (s, Sent (bad_request e))"
    and "handleGetRequest e s req = (s, Sent (bad_request e))"
  using assms by (auto simp: handlePostRequest_def handleGetRequest_def)

lemma session_entry_new_MCPServer_constructor:
  "session_entry new_MCPServer (Some ''constructor'') = Inherited"
  by (simp add: session_entry_def transports_get_def new_MCPServer_def configureTools_def
      setToolSchema_def Object_prototype_names_def)

text \<open>
  Claim C1. Every POST request, and every GET request, whose session identifier is
  missing or does not resolve in the session table is to be answered with the
  structured 400 error, without a crash. On a server with no session at all, the
  identifier \<open>constructor\<close> (a property every object literal inherits) passes the guard
  \<open>sessionId && this.transports[sessionId]\<close>: the POST path then fails inside its
  \<open>try\<close> and answers 500, and the GET path, which has no \<open>try\<close>, lets the
  \<open>TypeError\<close> escape without writing a response.
\<close>

theorem inherited_name_passes_session_guard:
  "handlePostRequest e new_MCPServer \<lparr>mcp_session_id = Some ''constructor'', req_body = b\<rparr> =
     (new_MCPServer,
      Sent \<lparr>status = 500,
            body = JsonBody (createErrorResponse (errorUUID e) ''Internal server error:'')\<rparr>)
   \<and> handleGetRequest e new_MCPServer \<lparr>mcp_session_id = Some ''constructor'', req_body = b\<rparr> =
     (new_MCPServer, Uncaught (TypeError ''transport.handleRequest is not a function'') None)"
  by (simp add: handlePostRequest_def handleGetRequest_def
      session_entry_new_MCPServer_constructor call_handleRequest_def post_settle_def
      post_catch_def)

section \<open>Terminating a session twice\<close>

text \<open>
  The example client terminates its session twice. The first DELETE is handed to the
  transport, which closes and so removes the session; the second DELETE finds no
  session and is answered 400, an error response.
\<close>

theorem second_terminate_is_rejected:
  "handleDeleteRequest closing_env one_session_server terminate_request =
     (new_MCPServer, Relayed (TransportOutput 200 []))
   \<and> handleDeleteRequest closing_env new_MCPServer terminate_request =
     (new_MCPServer, Sent \<lparr>status = 400, body = TextBody ''Invalid or missing session ID''\<rparr>)"
  by (simp add: one_session_server_eq handleDeleteRequest_def session_entry_def
      terminate_request_def transports_get_def example_uuid_def closing_env_def
      initializing_env_def call_handleRequest_def onclose_def new_MCPServer_def
      configureTools_def setToolSchema_def Object_prototype_names_def)

text \<open>
  Claim C2, as the code has it. Let \<open>sid\<close> be the identifier of a session in the table
  (a generated identifier: not empty, not a property name of \<open>Object.prototype\<close>, and
  the \<open>sessionId\<close> of its transport), and let the transport close on the DELETE
  request. Then the first DELETE returns what the transport wrote and removes \<open>sid\<close>
  from the table; a second DELETE with \<open>sid\<close> is answered 400 with the text
  \<open>Invalid or missing session ID\<close> and changes nothing; \<open>sid\<close> is absent afterwards.
\<close>

theorem terminate_then_terminate:
  assumes "map_of (transports s) sid = Some t"
    and "sessionId t = Some sid"
    and "sid \<noteq> []"
    and "sid \<notin> set Object_prototype_names"
    and "handleRequest_effect e1 = Closes r"
    and "mcp_session_id req = Some sid"
  shows "handleDeleteRequest e1 s req =
           (s\<lparr>transports := AList.delete sid (transports s)\<rparr>, Relayed r)
       \<and> handleDeleteRequest e2 (s\<lparr>transports := AList.delete sid (transports s)\<rparr>) req =
           (s\<lparr>transports := AList.delete sid (transports s)\<rparr>,
            Sent \<lparr>status = 400, body = TextBody ''Invalid or missing session ID''\<rparr>)
       \<and> map_of (AList.delete sid (transports s)) sid = None"
  using assms
  by (simp add: handleDeleteRequest_def session_entry_def transports_get_def
      call_handleRequest_def onclose_def map_of_delete_same)

theorem terminate_then_terminate_witness:
  "handleDeleteRequest closing_env one_session_server terminate_request =
     (one_session_server\<lparr>transports := AList.delete example_uuid (transports one_session_server)\<rparr>,
      Relayed (TransportOutput 200 []))
   \<and> handleDeleteRequest initializing_env
       (one_session_server\<lparr>transports := AList.delete example_uuid (transports one_session_server)\<rparr>)
       terminate_request =
     (one_session_server\<lparr>transports := AList.delete example_uuid (transports one_session_server)\<rparr>,
      Sent \<lparr>status = 400, body = TextBody ''Invalid or missing session ID''\<rparr>)
   \<and> map_of (AList.delete example_uuid (transports one_session_server)) example_uuid = None"
proof -
  have tbl: "map_of (transports one_session_server) example_uuid =
      Some \<lparr>sessionId = Some example_uuid\<rparr>"
    by (simp add: one_session_server_eq)
  have sid: "sessionId \<lparr>sessionId = Some example_uuid\<rparr> = Some example_uuid"
    by simp
  have ne: "example_uuid \<noteq> []"
    by (simp add: example_uuid_def)
  have own: "example_uuid \<notin> set Object_prototype_names"
    by (simp add: example_uuid_def Object_prototype_names_def)
  have eff: "handleRequest_effect closing_env = Closes (TransportOutput 200 [])"
    by (simp add: closing_env_def)
  have hdr: "mcp_session_id terminate_request = Some example_uuid"
    by (simp add: terminate_request_def)
  show ?thesis
    using terminate_then_terminate [OF tbl sid ne own eff hdr] by simp
qed

section \<open>Serving a tool-list request\<close>

text \<open>
  Serving one tool-list request on a freshly constructed server changes the field
  \<open>singleGreetToolName\<close>: the handler assigns a name with a new UUID before it builds
  the descriptors.
\<close>

theorem tool_list_request_renames_single_tool:
  "singleGreetToolName (fst (ListTools_handler example_uuid new_MCPServer)) =
     ''single-greeting-1b9d6bcd-bbfd-4b2d-9b5d-ab8dfbbd4bed''
   \<and> singleGreetToolName new_MCPServer = ''single-greet''
   \<and> fst (ListTools_handler example_uuid new_MCPServer) \<noteq> new_MCPServer"
proof -
  have a: "singleGreetToolName (fst (ListTools_handler example_uuid new_MCPServer)) =
      ''single-greeting-1b9d6bcd-bbfd-4b2d-9b5d-ab8dfbbd4bed''"
    by (simp add: ListTools_handler_def Let_def example_uuid_def)
  have b: "singleGreetToolName new_MCPServer = ''single-greet''"
    by (simp add: new_MCPServer_def configureTools_def setToolSchema_def)
  have "singleGreetToolName (fst (ListTools_handler example_uuid new_MCPServer)) \<noteq>
      singleGreetToolName new_MCPServer"
    unfolding a b by simp
  then have "fst (ListTools_handler example_uuid new_MCPServer) \<noteq> new_MCPServer"
    by auto
  with a b show ?thesis by simp
qed

text \<open>
  Claim C3, as the code has it. Handling a tool-list request returns two descriptors,
  the single-greet tool under the name \<open>single-greeting-\<close> followed by a newly drawn
  UUID and the multi-greet tool under its current name, each with its fixed description
  and input schema. It stores the new name in \<open>singleGreetToolName\<close> and leaves every
  other field of the server (\<open>multiGreetToolName\<close>, \<open>transports\<close>, \<open>server\<close>,
  \<open>toolInterval\<close>) unchanged.
\<close>

theorem tool_list_request_effect:
  "snd (ListTools_handler uuid s) =
     [\<lparr>name = ''single-greeting-'' @ uuid, description = ''Greet the user once.'',
       inputSchema = name_schema\<rparr>,
      \<lparr>name = multiGreetToolName s,
       description = ''Greet the user multiple times with delay in between.'',
       inputSchema = name_schema\<rparr>]
   \<and> singleGreetToolName (fst (ListTools_handler uuid s)) = ''single-greeting-'' @ uuid
   \<and> multiGreetToolName (fst (ListTools_handler uuid s)) = multiGreetToolName s
   \<and> transports (fst (ListTools_handler uuid s)) = transports s
   \<and> server (fst (ListTools_handler uuid s)) = server s
   \<and> toolInterval (fst (ListTools_handler uuid s)) = toolInterval s"
  by (simp add: ListTools_handler_def Let_def singleGreetTool_def multiGreetTool_def)

section \<open>The two greeting tools\<close>

text \<open>
  Claim C4. A call of the multi-step tool with arguments \<open>{name: n}\<close>, both of whose
  awaited notifications are delivered, is seen by the caller's session as exactly:
  the notification with data \<open>First greet to n\<close>, then the notification with data
  \<open>Second greet to n\<close>, then one terminal response. The handler performs, in this
  order: the first send, a pause of 1000 ms, the second send, a pause of 1000 ms, and
  only then returns the response.
\<close>

theorem multi_greet_trace:
  assumes "names_ok s"
    and "call_name request = multiGreetToolName s"
    and "call_arguments request = Some args"
    and "args ''name'' = Some (JStr n)"
    and "send 0" and "send 1"
  shows "session_trace (CallTool_handler send s request) =
           [Interim \<lparr>notif_method = ''notifications/message'',
                     notif_params = Some \<lparr>level = ''info'', data = ''First greet to '' @ n\<rparr>\<rparr>,
            Interim \<lparr>notif_method = ''notifications/message'',
                     notif_params = Some \<lparr>level = ''info'', data = ''Second greet to '' @ n\<rparr>\<rparr>,
            Terminal [\<lparr>content_type = ''text'', content_text = ''Hope you enjoy your day!''\<rparr>]]
       \<and> fst (CallTool_handler send s request) =
           [Notify \<lparr>notif_method = ''notifications/message'',
                    notif_params = Some \<lparr>level = ''info'', data = ''First greet to '' @ n\<rparr>\<rparr>,
            Sleep 1000,
            Notify \<lparr>notif_method = ''notifications/message'',
                    notif_params = Some \<lparr>level = ''info'', data = ''Second greet to '' @ n\<rparr>\<rparr>,
            Sleep 1000]"
  using assms names_ok_distinct [OF assms(1)]
  by (simp add: CallTool_handler_def Let_def js_prop_def session_trace_def)

theorem multi_greet_trace_witness:
  "session_trace (CallTool_handler (\<lambda>k. True) new_MCPServer
       \<lparr>call_name = ''multi-great'', call_arguments = Some [''name'' \<mapsto> JStr ''arjun'']\<rparr>) =
     [Interim \<lparr>notif_method = ''notifications/message'',
               notif_params = Some \<lparr>level = ''info'', data = ''First greet to arjun''\<rparr>\<rparr>,
      Interim \<lparr>notif_method = ''notifications/message'',
               notif_params = Some \<lparr>level = ''info'', data = ''Second greet to arjun''\<rparr>\<rparr>,
      Terminal [\<lparr>content_type = ''text'', content_text = ''Hope you enjoy your day!''\<rparr>]]"
proof -
  have nm: "call_name \<lparr>call_name = ''multi-great'',
        call_arguments = Some [''name'' \<mapsto> JStr ''arjun'']\<rparr> = multiGreetToolName new_MCPServer"
    by (simp add: new_MCPServer_def configureTools_def setToolSchema_def)
  have ar: "call_arguments \<lparr>call_name = ''multi-great'',
        call_arguments = Some [''name'' \<mapsto> JStr ''arjun'']\<rparr> = Some [''name'' \<mapsto> JStr ''arjun'']"
    by simp
  have lk: "[''name'' \<mapsto> JStr ''arjun''] ''name'' = Some (JStr ''arjun'')"
    by simp
  show ?thesis
    using multi_greet_trace [OF names_ok_new_MCPServer nm ar lk, of "\<lambda>k. True"] by simp
qed

text \<open>
  Whatever the deliveries do, the order is kept: a second notification is sent only
  after the first was delivered, and a result is returned only after both were.
\<close>

lemma multi_greet_any_delivery:
  assumes "names_ok s"
    and "call_name request = multiGreetToolName s"
    and "call_arguments request = Some args"
  shows "session_trace (CallTool_handler send s request) =
           (if send 0 then
              Interim \<lparr>notif_method = ''notifications/message'',
                 notif_params = Some \<lparr>level = ''info'',
                   data = ''First greet to '' @ js_to_string (js_prop args ''name'')\<rparr>\<rparr> #
              (if send 1 then
                 [Interim \<lparr>notif_method = ''notifications/message'',
                    notif_params = Some \<lparr>level = ''info'',
                      data = ''Second greet to '' @ js_to_string (js_prop args ''name'')\<rparr>\<rparr>,
                  Terminal [\<lparr>content_type = ''text'', content_text = ''Hope you enjoy your day!''\<rparr>]]
               else [Failure TransportFailure])
            else [Failure TransportFailure])"
  using assms names_ok_distinct [OF assms(1)]
  by (simp add: CallTool_handler_def Let_def session_trace_def)

text \<open>
  The single-response tool called with \<open>{name: ""}\<close>: the argument is present, the
  test \<open>!name\<close> holds for the empty string, and the call throws.
\<close>

theorem empty_name_is_rejected:
  "CallTool_handler (\<lambda>k. True) new_MCPServer
       \<lparr>call_name = ''single-greet'', call_arguments = Some [''name'' \<mapsto> JStr []]\<rparr> =
     ([], Inl (Error ''Name to greet undefined.''))"
  by (simp add: CallTool_handler_def Let_def js_prop_def new_MCPServer_def configureTools_def
      setToolSchema_def)

text \<open>
  Claim C5, as the code has it. A call of the single-response tool with arguments
  \<open>{name: n}\<close>, where \<open>n\<close> is a string that is not empty, returns one result whose text
  is \<open>Hey n! Welcome to itsuki's world!\<close>, and performs no send and no pause,
  whatever the transport would do.
\<close>

theorem single_greet_result:
  assumes "names_ok s"
    and "call_name request = singleGreetToolName s"
    and "call_arguments request = Some args"
    and "args ''name'' = Some (JStr n)"
    and "n \<noteq> []"
  shows "CallTool_handler send s request =
           ([], Inr [\<lparr>content_type = ''text'',
                      content_text = ''Hey '' @ n @ ''! Welcome to itsuki's world!''\<rparr>])"
  using assms names_ok_distinct [OF assms(1)]
  by (simp add: CallTool_handler_def Let_def js_prop_def)

theorem single_greet_result_witness:
  "CallTool_handler (\<lambda>k. False) new_MCPServer
       \<lparr>call_name = ''single-greet'', call_arguments = Some [''name'' \<mapsto> JStr ''arjun'']\<rparr> =
     ([], Inr [\<lparr>content_type = ''text'',
                content_text = ''Hey arjun! Welcome to itsuki's world!''\<rparr>])"
proof -
  have nm: "call_name \<lparr>call_name = ''single-greet'',
        call_arguments = Some [''name'' \<mapsto> JStr ''arjun'']\<rparr> = singleGreetToolName new_MCPServer"
    by (simp add: new_MCPServer_def configureTools_def setToolSchema_def)
  have ar: "call_arguments \<lparr>call_name = ''single-greet'',
        call_arguments = Some [''name'' \<mapsto> JStr ''arjun'']\<rparr> = Some [''name'' \<mapsto> JStr ''arjun'']"
    by simp
  have lk: "[''name'' \<mapsto> JStr ''arjun''] ''name'' = Some (JStr ''arjun'')"
    by simp
  have ne: "''arjun'' \<noteq> []"
    by simp
  show ?thesis
    using single_greet_result [OF names_ok_new_MCPServer nm ar lk ne, of "\<lambda>k. False"] by simp
qed

text \<open>
  Claim C9. With an arguments object that has no \<open>name\<close>, the single-response tool
  throws \<open>Name to greet undefined.\<close>, while the multi-step tool (its two sends being
  delivered) does not fail: it sends \<open>First greet to undefined\<close>, then
  \<open>Second greet to undefined\<close>, and returns its terminal response.
\<close>

theorem name_validation_differs:
  assumes "names_ok s"
    and "args ''name'' = None"
    and "send 0" and "send 1"
  shows "CallTool_handler send s
           \<lparr>call_name = singleGreetToolName s, call_arguments = Some args\<rparr> =
           ([], Inl (Error ''Name to greet undefined.''))
       \<and> CallTool_handler send s
           \<lparr>call_name = multiGreetToolName s, call_arguments = Some args\<rparr> =
           ([Notify \<lparr>notif_method = ''notifications/message'',
                     notif_params = Some \<lparr>level = ''info'', data = ''First greet to undefined''\<rparr>\<rparr>,
             Sleep 1000,
             Notify \<lparr>notif_method = ''notifications/message'',
                     notif_params = Some \<lparr>level = ''info'', data = ''Second greet to undefined''\<rparr>\<rparr>,
             Sleep 1000],
            Inr [\<lparr>content_type = ''text'', content_text = ''Hope you enjoy your day!''\<rparr>])"
  using assms names_ok_distinct [OF assms(1)]
  by (simp add: CallTool_handler_def Let_def js_prop_def)

theorem name_validation_differs_witness:
  "CallTool_handler (\<lambda>k. True) new_MCPServer
      \<lparr>call_name = ''single-greet'', call_arguments = Some Map.empty\<rparr> =
      ([], Inl (Error ''Name to greet undefined.''))
   \<and> CallTool_handler (\<lambda>k. True) new_MCPServer
      \<lparr>call_name = ''multi-great'', call_arguments = Some Map.empty\<rparr> =
      ([Notify \<lparr>notif_method = ''notifications/message'',
                notif_params = Some \<lparr>level = ''info'', data = ''First greet to undefined''\<rparr>\<rparr>,
        Sleep 1000,
        Notify \<lparr>notif_method = ''notifications/message'',
                notif_params = Some \<lparr>level = ''info'', data = ''Second greet to undefined''\<rparr>\<rparr>,
        Sleep 1000],
       Inr [\<lparr>content_type = ''text'', content_text = ''Hope you enjoy your day!''\<rparr>])"
proof -
  have lk: "(Map.empty :: string \<rightharpoonup> jsval) ''name'' = None"
    by simp
  have s1: "singleGreetToolName new_MCPServer = ''single-greet''"
    and s2: "multiGreetToolName new_MCPServer = ''multi-great''"
    by (simp_all add: new_MCPServer_def configureTools_def setToolSchema_def)
  show ?thesis
    using name_validation_differs [OF names_ok_new_MCPServer lk, of "\<lambda>k. True"]
    by (simp add: s1 s2)
qed

section \<open>The periodic broadcast\<close>

text \<open>
  The timer callback calls \<open>sendNotification\<close> once for every transport that is in
  the session table when it runs, in table order, each time with the
  \<open>notifications/tools/list_changed\<close> message, and the loop itself completes
  normally whichever of the sends are rejected.
\<close>

lemma broadcast_attempts_every_session:
  "snd (toolInterval_callback send s) =
     Normal (map (\<lambda>t. \<lparr>target = t,
                         message = \<lparr>rpc_method = ''notifications/tools/list_changed'',
                                    rpc_params = None, rpc_jsonrpc = ''2.0''\<rparr>,
                         fulfilled = send t\<rparr>)
                 (map snd (transports s)))"
  by (simp add: toolInterval_callback_def Let_def setToolSchema_def forEach_collect
      sendNotification_def toolListChanged_def JSON_RPC_def)

text \<open>The state after a second client has initialized its session.\<close>

lemma two_session_server_eq:
  "two_session_server =
     new_MCPServer\<lparr>transports :=
       [(example_uuid, \<lparr>sessionId = Some example_uuid\<rparr>),
        (second_uuid, \<lparr>sessionId = Some second_uuid\<rparr>)]\<rparr>"
  by (simp add: two_session_server_def one_session_server_eq handlePostRequest_def
      session_entry_def initialize_request_def initializing_env_def header_falsy_def
      post_settle_def call_handleRequest_def onsessioninitialized_def new_MCPServer_def
      configureTools_def setToolSchema_def example_uuid_def second_uuid_def)

text \<open>
  Every send of the broadcast that is rejected stays without a handler, and in mode
  \<open>throw\<close> the process survives a run of the timer callback exactly when no send
  of that run is rejected.
\<close>

lemma unhandled_rejections_broadcast:
  "unhandled_rejections (map (\<lambda>t. sendNotification send t n) ts) =
     map (\<lambda>t. sendNotification send t n) (filter (\<lambda>t. \<not> send t) ts)"
  by (induction ts) (simp_all add: unhandled_rejections_def sendNotification_def)

lemma process_after_timer_throw:
  "process_after_timer ThrowMode (snd (toolInterval_callback send s)) =
     (if list_all send (map snd (transports s)) then Running else Exited 1)"
proof -
  have "snd (toolInterval_callback send s) =
      Normal (map (\<lambda>t. sendNotification send t toolListChanged) (map snd (transports s)))"
    by (simp add: toolInterval_callback_def Let_def setToolSchema_def forEach_collect)
  moreover have "(filter (\<lambda>t. \<not> send t) ts = []) = list_all send ts" for ts
    by (induction ts) simp_all
  ultimately show ?thesis
    by (simp add: process_after_timer_def unhandled_rejections_broadcast
        process_listeners_def del: map_map)
qed

text \<open>
  Claim C6. The broadcast is to attempt delivery to every session of the table, and
  a delivery failure on one session's transport is to stay with that session: logged
  or dropped, failing nobody else. With two sessions in the table, the first
  transport rejecting \<open>send\<close> and the second accepting it, the callback does call
  \<open>sendNotification\<close> for both, in order. But the rejected promise of the first is
  left without a handler: nothing logs it and nothing drops it. In Node's default
  mode the process then exits with code 1, which ends the second session as well;
  when no send is rejected the process goes on.
\<close>

theorem rejected_broadcast_send_ends_process:
  "snd (toolInterval_callback first_send_rejects two_session_server) =
     Normal [\<lparr>target = \<lparr>sessionId = Some example_uuid\<rparr>,
              message = \<lparr>rpc_method = ''notifications/tools/list_changed'',
                         rpc_params = None, rpc_jsonrpc = ''2.0''\<rparr>,
              fulfilled = False\<rparr>,
             \<lparr>target = \<lparr>sessionId = Some second_uuid\<rparr>,
              message = \<lparr>rpc_method = ''notifications/tools/list_changed'',
                         rpc_params = None, rpc_jsonrpc = ''2.0''\<rparr>,
              fulfilled = True\<rparr>]
   \<and> unhandled_rejections
       [\<lparr>target = \<lparr>sessionId = Some example_uuid\<rparr>,
         message = \<lparr>rpc_method = ''notifications/tools/list_changed'',
                    rpc_params = None, rpc_jsonrpc = ''2.0''\<rparr>,
         fulfilled = False\<rparr>,
        \<lparr>target = \<lparr>sessionId = Some second_uuid\<rparr>,
         message = \<lparr>rpc_method = ''notifications/tools/list_changed'',
                    rpc_params = None, rpc_jsonrpc = ''2.0''\<rparr>,
         fulfilled = True\<rparr>] =
       [\<lparr>target = \<lparr>sessionId = Some example_uuid\<rparr>,
         message = \<lparr>rpc_method = ''notifications/tools/list_changed'',
                    rpc_params = None, rpc_jsonrpc = ''2.0''\<rparr>,
         fulfilled = False\<rparr>]
   \<and> process_after_timer ThrowMode
       (snd (toolInterval_callback first_send_rejects two_session_server)) = Exited 1
   \<and> process_after_timer ThrowMode
       (snd (toolInterval_callback (\<lambda>t. True) two_session_server)) = Running"
proof -
  have run: "snd (toolInterval_callback first_send_rejects two_session_server) =
     Normal [\<lparr>target = \<lparr>sessionId = Some example_uuid\<rparr>,
              message = \<lparr>rpc_method = ''notifications/tools/list_changed'',
                         rpc_params = None, rpc_jsonrpc = ''2.0''\<rparr>,
              fulfilled = False\<rparr>,
             \<lparr>target = \<lparr>sessionId = Some second_uuid\<rparr>,
              message = \<lparr>rpc_method = ''notifications/tools/list_changed'',
                         rpc_params = None, rpc_jsonrpc = ''2.0''\<rparr>,
              fulfilled = True\<rparr>]"
    by (simp add: two_session_server_eq toolInterval_callback_def Let_def setToolSchema_def
        sendNotification_def toolListChanged_def JSON_RPC_def first_send_rejects_def
        example_uuid_def second_uuid_def)
  have ok: "snd (toolInterval_callback (\<lambda>t. True) two_session_server) =
     Normal [\<lparr>target = \<lparr>sessionId = Some example_uuid\<rparr>,
              message = \<lparr>rpc_method = ''notifications/tools/list_changed'',
                         rpc_params = None, rpc_jsonrpc = ''2.0''\<rparr>,
              fulfilled = True\<rparr>,
             \<lparr>target = \<lparr>sessionId = Some second_uuid\<rparr>,
              message = \<lparr>rpc_method = ''notifications/tools/list_changed'',
                         rpc_params = None, rpc_jsonrpc = ''2.0''\<rparr>,
              fulfilled = True\<rparr>]"
    by (simp add: two_session_server_eq toolInterval_callback_def Let_def setToolSchema_def
        sendNotification_def toolListChanged_def JSON_RPC_def)
  show ?thesis
    unfolding run ok
    by (simp add: unhandled_rejections_def process_after_timer_def process_listeners_def)
qed

lemma toolInterval_callback_registered:
  "ListToolsRequestSchema \<in> server s \<Longrightarrow> fst (toolInterval_callback send s) = s"
  by (simp add: toolInterval_callback_def Let_def setToolSchema_def insert_absorb)

lemma new_MCPServer_registered: "ListToolsRequestSchema \<in> server new_MCPServer"
  by (simp add: new_MCPServer_def configureTools_def setToolSchema_def)

text \<open>
  No number read from the server object grows when the timer callback runs on a
  freshly constructed server: the callback leaves that object as it was.
\<close>

theorem rotation_increments_no_counter:
  "\<not> (\<exists>version :: mcp_server \<Rightarrow> nat.
        version new_MCPServer < version (fst (toolInterval_callback (\<lambda>t. True) new_MCPServer)))"
  by (simp add: toolInterval_callback_registered [OF new_MCPServer_registered])

text \<open>
  Claim C7, as the code has it. The server keeps no version counter. One run of the
  periodic rotation registers the tool-list handler again and leaves the session
  table, both tool names and the timer field unchanged; a further run changes nothing
  more.
\<close>

theorem rotation_leaves_fields_unchanged:
  "transports (fst (toolInterval_callback send s)) = transports s
   \<and> singleGreetToolName (fst (toolInterval_callback send s)) = singleGreetToolName s
   \<and> multiGreetToolName (fst (toolInterval_callback send s)) = multiGreetToolName s
   \<and> toolInterval (fst (toolInterval_callback send s)) = toolInterval s
   \<and> server (fst (toolInterval_callback send s)) = insert ListToolsRequestSchema (server s)
   \<and> fst (toolInterval_callback send (fst (toolInterval_callback send s))) =
       fst (toolInterval_callback send s)"
  by (simp add: toolInterval_callback_def Let_def setToolSchema_def)

section \<open>Error responses\<close>

text \<open>
  Claim C8. Every error a client sees on the three paths is to be a structured
  JSON-RPC error body. A DELETE request without session identifier is answered 400
  with the plain text \<open>Invalid or missing session ID\<close>, which is no JSON-RPC error
  body; the same request on the GET path is answered with the structured body.
\<close>

theorem terminate_error_is_plain_text:
  "handleDeleteRequest e s \<lparr>mcp_session_id = None, req_body = b\<rparr> =
     (s, Sent \<lparr>status = 400, body = TextBody ''Invalid or missing session ID''\<rparr>)
   \<and> is_jsonrpc_error_body (TextBody ''Invalid or missing session ID'') = False
   \<and> handleGetRequest e s \<lparr>mcp_session_id = None, req_body = b\<rparr> =
     (s, Sent \<lparr>status = 400,
               body = JsonBody (createErrorResponse (errorUUID e)
                        ''Bad Request: invalid session ID or method.'')\<rparr>)"
  by (simp add: handleDeleteRequest_def handleGetRequest_def session_entry_def bad_request_def)

text \<open>
  Claim C10. Every structured error response that a route handler sends has the code
  -32000 and, as its id, the UUID drawn for it by \<open>randomUUID()\<close>, not a value of the
  request. A second run of the same request in the same state that draws another
  UUID sends the same response but for the id, hence a different response.
\<close>

theorem error_response_code_and_id:
  assumes "h = handlePostRequest \<or> h = handleGetRequest \<or> h = handleDeleteRequest"
    and "snd (h e s req) = Sent \<lparr>status = st, body = JsonBody err\<rparr>"
    and "u \<noteq> errorUUID e"
  shows "err_code err = - 32000 \<and> err_id err = errorUUID e
       \<and> snd (h (e\<lparr>errorUUID := u\<rparr>) s req) =
           Sent \<lparr>status = st, body = JsonBody (err\<lparr>err_id := u\<rparr>)\<rparr>
       \<and> snd (h (e\<lparr>errorUUID := u\<rparr>) s req) \<noteq> snd (h e s req)"
proof -
  obtain m where err: "err = createErrorResponse (errorUUID e) m"
    and other: "\<And>u. snd (h (e\<lparr>errorUUID := u\<rparr>) s req) =
                 Sent \<lparr>status = st, body = JsonBody (createErrorResponse u m)\<rparr>"
    using handler_error_cases [OF assms(1,2)] by blast
  have "err_code err = - 32000" "err_id err = errorUUID e"
    by (simp_all add: err createErrorResponse_def)
  moreover have "createErrorResponse u m = err\<lparr>err_id := u\<rparr>"
    by (simp add: err createErrorResponse_def)
  moreover have "createErrorResponse u m \<noteq> err"
    using assms(3) by (auto simp: err createErrorResponse_def)
  ultimately show ?thesis
    using other [of u] assms(2) by simp
qed

theorem error_response_code_and_id_witness:
  "err_code (createErrorResponse (errorUUID initializing_env)
       ''Bad Request: invalid session ID or method.'') = - 32000
   \<and> snd (handleGetRequest (initializing_env\<lparr>errorUUID := example_uuid\<rparr>) new_MCPServer
          \<lparr>mcp_session_id = None, req_body = \<lparr>body_method = [], body_id = JUndefined\<rparr>\<rparr>) \<noteq>
     snd (handleGetRequest initializing_env new_MCPServer
          \<lparr>mcp_session_id = None, req_body = \<lparr>body_method = [], body_id = JUndefined\<rparr>\<rparr>)"
proof -
  have run: "snd (handleGetRequest initializing_env new_MCPServer
          \<lparr>mcp_session_id = None, req_body = \<lparr>body_method = [], body_id = JUndefined\<rparr>\<rparr>) =
      Sent \<lparr>status = 400, body = JsonBody (createErrorResponse (errorUUID initializing_env)
              ''Bad Request: invalid session ID or method.'')\<rparr>"
    by (simp add: handleGetRequest_def session_entry_def bad_request_def)
  have ne: "example_uuid \<noteq> errorUUID initializing_env"
    by (simp add: example_uuid_def initializing_env_def)
  have h: "handleGetRequest = handlePostRequest \<or> handleGetRequest = handleGetRequest
      \<or> handleGetRequest = handleDeleteRequest"
    by simp
  from error_response_code_and_id [OF h run ne] show ?thesis
    by blast
qed

end
